theory Spec2Isabelle
  imports Complex_Main "HOL-Library.Sublist" "HOL-Library.Log_Nat"
begin

section \<open>JavaScript values\<close>

text \<open>
  The decision logic of WeatherWise reads a parsed JSON payload and a context object
  built from it. A JavaScript number is modelled as an exact rational or the
  not-a-number value \<open>NaN\<close>: the rounding of IEEE doubles and the two infinities are
  left out, except for the impact score, which is also given in the arithmetic of
  doubles. Arithmetic and comparisons follow ECMAScript on \<open>NaN\<close>: an operation with
  a \<open>NaN\<close> operand is \<open>NaN\<close>, a comparison with a \<open>NaN\<close> operand is false.
\<close>

datatype jsnum = NaN | Fin rat

fun js_add :: "jsnum \<Rightarrow> jsnum \<Rightarrow> jsnum" where
  "js_add (Fin a) (Fin b) = Fin (a + b)"
| "js_add _ _ = NaN"

fun js_sub :: "jsnum \<Rightarrow> jsnum \<Rightarrow> jsnum" where
  "js_sub (Fin a) (Fin b) = Fin (a - b)"
| "js_sub _ _ = NaN"

fun js_mul :: "jsnum \<Rightarrow> jsnum \<Rightarrow> jsnum" where
  "js_mul (Fin a) (Fin b) = Fin (a * b)"
| "js_mul _ _ = NaN"

text \<open>Division is only used with the constant divisor 80.\<close>

fun js_div :: "jsnum \<Rightarrow> jsnum \<Rightarrow> jsnum" where
  "js_div (Fin a) (Fin b) = (if b = 0 then NaN else Fin (a / b))"
| "js_div _ _ = NaN"

fun js_lt :: "jsnum \<Rightarrow> jsnum \<Rightarrow> bool" where
  "js_lt (Fin a) (Fin b) = (a < b)"
| "js_lt _ _ = False"

fun js_le :: "jsnum \<Rightarrow> jsnum \<Rightarrow> bool" where
  "js_le (Fin a) (Fin b) = (a \<le> b)"
| "js_le _ _ = False"

definition js_gt :: "jsnum \<Rightarrow> jsnum \<Rightarrow> bool" where
  "js_gt a b = js_lt b a"

definition js_ge :: "jsnum \<Rightarrow> jsnum \<Rightarrow> bool" where
  "js_ge a b = js_le b a"

fun Math_max :: "jsnum \<Rightarrow> jsnum \<Rightarrow> jsnum" where
  "Math_max (Fin a) (Fin b) = Fin (max a b)"
| "Math_max _ _ = NaN"

fun Math_min :: "jsnum \<Rightarrow> jsnum \<Rightarrow> jsnum" where
  "Math_min (Fin a) (Fin b) = Fin (min a b)"
| "Math_min _ _ = NaN"

text \<open>\<open>Math.round\<close> rounds to the nearest integer, a tie towards plus infinity.\<close>

fun Math_round :: "jsnum \<Rightarrow> jsnum" where
  "Math_round (Fin a) = Fin (of_int \<lfloor>a + 1 / 2\<rfloor>)"
| "Math_round NaN = NaN"

fun Number_isNaN :: "jsnum \<Rightarrow> bool" where
  "Number_isNaN NaN = True"
| "Number_isNaN (Fin _) = False"

text \<open>
  A value is what \<open>JSON.parse\<close> can produce, or \<open>undefined\<close> for a property that is
  not there. An object is the list of its own properties; the first binding of a key is
  the one that is read.
\<close>

datatype jsval =
    JUndefined
  | JNull
  | JBool bool
  | JNum jsnum
  | JStr string
  | JArr "jsval list"
  | JObj "(string \<times> jsval) list"

datatype error = TypeError

text \<open>Truthiness, as the operator \<open>||\<close> tests it.\<close>

fun truthy :: "jsval \<Rightarrow> bool" where
  "truthy JUndefined = False"
| "truthy JNull = False"
| "truthy (JBool b) = b"
| "truthy (JNum NaN) = False"
| "truthy (JNum (Fin r)) = (r \<noteq> 0)"
| "truthy (JStr s) = (s \<noteq> [])"
| "truthy (JArr _) = True"
| "truthy (JObj _) = True"

text \<open>\<open>a || b\<close> and \<open>a ?? b\<close>; the right operands in this program are constants.\<close>

definition js_or :: "jsval \<Rightarrow> jsval \<Rightarrow> jsval" where
  "js_or a b = (if truthy a then a else b)"

definition nullish :: "jsval \<Rightarrow> jsval \<Rightarrow> jsval" where
  "nullish a b = (if a = JUndefined \<or> a = JNull then b else a)"

text \<open>
  \<open>v?.name\<close> for a property name that no prototype defines (\<open>weather\<close>, \<open>main\<close>,
  \<open>description\<close>, \<open>temp\<close>, \<open>feels_like\<close>, \<open>wind\<close>, \<open>speed\<close>, \<open>clouds\<close>,
  \<open>all\<close>, \<open>visibility\<close>, \<open>rain\<close>, \<open>snow\<close>, \<open>1h\<close> are the ones read): \<open>undefined\<close> on
  \<open>undefined\<close> and \<open>null\<close> by the optional chaining, the own property of an object, and
  \<open>undefined\<close> on every array and primitive.
\<close>

fun opt_prop :: "jsval \<Rightarrow> string \<Rightarrow> jsval" where
  "opt_prop (JObj kvs) name = (case map_of kvs name of Some v \<Rightarrow> v | None \<Rightarrow> JUndefined)"
| "opt_prop _ name = JUndefined"

text \<open>
  \<open>v?.[0]\<close>: the first element of an array, the first character of a string, the
  property \<open>0\<close> of an object.
\<close>

fun opt_index0 :: "jsval \<Rightarrow> jsval" where
  "opt_index0 (JArr xs) = (case xs of [] \<Rightarrow> JUndefined | x # _ \<Rightarrow> x)"
| "opt_index0 (JStr s) = (case s of [] \<Rightarrow> JUndefined | c # _ \<Rightarrow> JStr [c])"
| "opt_index0 (JObj kvs) = (case map_of kvs ''0'' of Some v \<Rightarrow> v | None \<Rightarrow> JUndefined)"
| "opt_index0 _ = JUndefined"

text \<open>
  \<open>typeof v === "number"\<close>.
\<close>

fun typeof_number :: "jsval \<Rightarrow> bool" where
  "typeof_number (JNum _) = True"
| "typeof_number _ = False"

text \<open>
  \<open>Number(v)\<close>, and the conversion that \<open>>\<close>, \<open>>=\<close>, \<open><=\<close> and \<open>*\<close> apply to an
  operand when the other one is a number. ECMAScript's conversion of a string, an array
  or an object to a number is not defined here: it is the parameter \<open>cv\<close>, and every
  theorem below holds for every \<open>cv\<close>.
\<close>

fun ToNumber :: "(jsval \<Rightarrow> jsnum) \<Rightarrow> jsval \<Rightarrow> jsnum" where
  "ToNumber cv JUndefined = NaN"
| "ToNumber cv JNull = Fin 0"
| "ToNumber cv (JBool b) = (if b then Fin 1 else Fin 0)"
| "ToNumber cv (JNum n) = n"
| "ToNumber cv v = cv v"

subsection \<open>Strings\<close>

text \<open>
  A string is a list of 8-bit characters. \<open>toLowerCase\<close> maps the letters A to Z to
  a to z and leaves every other character as it is.
\<close>

definition toLowerCaseChar :: "char \<Rightarrow> char" where
  "toLowerCaseChar c =
     (case map_of (zip ''ABCDEFGHIJKLMNOPQRSTUVWXYZ'' ''abcdefghijklmnopqrstuvwxyz'') c of
        Some l \<Rightarrow> l
      | None \<Rightarrow> c)"

definition toLowerCase :: "string \<Rightarrow> string" where
  "toLowerCase s = map toLowerCaseChar s"

text \<open>\<open>s.includes(p)\<close>: \<open>p\<close> occurs in \<open>s\<close> at some position.\<close>

fun str_includes :: "string \<Rightarrow> string \<Rightarrow> bool" where
  "str_includes [] p = (p = [])"
| "str_includes (c # cs) p = (prefix p (c # cs) \<or> str_includes cs p)"

section \<open>Condition normalizer\<close>

text \<open>
  \<open>normalizeCondition(weatherMain)\<close>. The method call \<open>.toLowerCase()\<close> exists on
  strings only: on a truthy value of another type the call raises a \<open>TypeError\<close>.
\<close>

definition normalizeCondition :: "jsval \<Rightarrow> error + string" where
  "normalizeCondition weatherMain =
     (case js_or weatherMain (JStr '''') of
        JStr s \<Rightarrow>
          (let m = toLowerCase s in
           if str_includes m ''thunder'' then Inr ''thunderstorm''
           else if str_includes m ''drizzle'' \<or> str_includes m ''rain'' then Inr ''rain''
           else if str_includes m ''snow'' then Inr ''snow''
           else if str_includes m ''cloud'' then Inr ''clouds''
           else if str_includes m ''clear'' then Inr ''clear''
           else Inr ''other'')
      | _ \<Rightarrow> Inl TypeError)"

text \<open>
  The table of the specification: the keywords of each category, in priority order. A
  keyword matches a label when it is a contiguous part of the label once letter case is
  ignored; the first row with a matching keyword gives the category, and a label that
  no row matches is \<open>other\<close>.
\<close>

definition priority_table :: "(string list \<times> string) list" where
  "priority_table =
     [([''thunder''], ''thunderstorm''),
      ([''drizzle'', ''rain''], ''rain''),
      ([''snow''], ''snow''),
      ([''cloud''], ''clouds''),
      ([''clear''], ''clear'')]"

definition keyword_matches :: "string \<Rightarrow> string \<Rightarrow> bool" where
  "keyword_matches label kw = sublist kw (map toLowerCaseChar label)"

definition first_match :: "string \<Rightarrow> string" where
  "first_match label =
     (case find (\<lambda>row. list_ex (keyword_matches label) (fst row)) priority_table of
        Some row \<Rightarrow> snd row
      | None \<Rightarrow> ''other'')"

section \<open>Context builder\<close>

text \<open>
  The context object. \<open>condition\<close> is the string that \<open>normalizeCondition\<close> returns;
  every other field holds the value read from the payload, whatever its type.
\<close>

record ctx =
  condition :: string
  rawConditionMain :: jsval
  description :: jsval
  temp :: jsval
  feelsLike :: jsval
  windSpeed :: jsval
  cloudPct :: jsval
  visibilityM :: jsval
  rainMm1h :: jsval
  snowMm1h :: jsval

text \<open>
  \<open>buildWeatherContext(api)\<close>. The only call that can raise is
  \<open>normalizeCondition\<close>; the other fields are evaluated without effect.
\<close>

definition buildWeatherContext :: "jsval \<Rightarrow> error + ctx" where
  "buildWeatherContext api =
     (let conditionMain = opt_prop (opt_index0 (opt_prop api ''weather'')) ''main'';
          description = js_or (opt_prop (opt_index0 (opt_prop api ''weather'')) ''description'')
                              (JStr '''');
          temp = opt_prop (opt_prop api ''main'') ''temp'';
          feelsLike = opt_prop (opt_prop api ''main'') ''feels_like'';
          windSpeed = opt_prop (opt_prop api ''wind'') ''speed''
      in case normalizeCondition conditionMain of
           Inl e \<Rightarrow> Inl e
         | Inr c \<Rightarrow>
             Inr \<lparr> condition = c,
                   rawConditionMain = js_or conditionMain (JStr ''Unknown''),
                   description = description,
                   temp = temp,
                   feelsLike = feelsLike,
                   windSpeed = windSpeed,
                   cloudPct = nullish (opt_prop (opt_prop api ''clouds'') ''all'') JNull,
                   visibilityM = nullish (opt_prop api ''visibility'') JNull,
                   rainMm1h = nullish (opt_prop (opt_prop api ''rain'') ''1h'') JNull,
                   snowMm1h = nullish (opt_prop (opt_prop api ''snow'') ''1h'') JNull \<rparr>)"

section \<open>Recommendation engine\<close>

text \<open>
  \<open>getRecommendation\<close> returns one of fourteen object literals, each with its own
  \<open>summary\<close>, \<open>recommendation\<close> and \<open>insightPool\<close>. The literals are constants with
  pairwise different summaries, so each is named by a constructor, in the order of the
  \<open>return\<close> statements of the source:
  \<^item> \<open>Thunderstorm\<close>: rule 1, "Gewitter moeglich", stay indoors;
  \<^item> \<open>SnowWinterGear\<close>: rule 2, "Kalt & verschneit", winter boots, hat and scarf;
  \<^item> \<open>SnowSleet\<close>: rule 2, "Schnee / Schneeregen", waterproof jacket and layers;
  \<^item> \<open>RainCold\<close>: rule 3, "Kuehl & regnerisch", rain jacket plus a warm layer;
  \<^item> \<open>RainWarm\<close>: rule 3, "Warm & regnerisch", light rain jacket;
  \<^item> \<open>RainStandard\<close>: rule 3, "Regnerisch", rain jacket or umbrella;
  \<^item> \<open>WindyCold\<close>: rule 4, "Windig & kuehl", windproof jacket and warm clothes;
  \<^item> \<open>Windy\<close>: rule 4, "Windig", a light windproof layer;
  \<^item> \<open>ClearHot\<close>: rule 5, "Heiss & sonnig", drink, avoid the midday sun;
  \<^item> \<open>ClearCold\<close>: rule 5, "Klar, aber kalt", warm jacket, the sun deceives;
  \<^item> \<open>ClearPleasant\<close>: rule 5, "Freundlich & trocken", perfect conditions;
  \<^item> \<open>CloudsCool\<close>: rule 6, "Kuehl & bewoelkt", plan a warm layer;
  \<^item> \<open>CloudsMild\<close>: rule 6, "Bewoelkt", everyday clothes;
  \<^item> \<open>Fallback\<close>: rule 7, "Wechselhaft", layers and flexible plans.
\<close>

datatype branch =
    Thunderstorm
  | SnowWinterGear
  | SnowSleet
  | RainCold
  | RainWarm
  | RainStandard
  | WindyCold
  | Windy
  | ClearHot
  | ClearCold
  | ClearPleasant
  | CloudsCool
  | CloudsMild
  | Fallback

definition getRecommendation :: "(jsval \<Rightarrow> jsnum) \<Rightarrow> ctx \<Rightarrow> branch" where
  "getRecommendation cv c =
     (let t = ToNumber cv (temp c);
          w = ToNumber cv (windSpeed c)
      in if condition c = ''thunderstorm'' then Thunderstorm
         else if condition c = ''snow'' then
           (if js_le t (Fin 0) then SnowWinterGear else SnowSleet)
         else if condition c = ''rain'' then
           (if js_le t (Fin 6) then RainCold
            else if js_ge t (Fin 22) then RainWarm
            else RainStandard)
         else if js_ge w (Fin 10) then
           (if js_le t (Fin 10) then WindyCold else Windy)
         else if condition c = ''clear'' then
           (if js_ge t (Fin 28) then ClearHot
            else if js_le t (Fin 5) then ClearCold
            else ClearPleasant)
         else if condition c = ''clouds'' then
           (if js_le t (Fin 8) then CloudsCool else CloudsMild)
         else Fallback)"

text \<open>
  A context with the given condition, temperature and wind speed, and every optional
  field absent; the examples below are stated on it.
\<close>

definition observation :: "string \<Rightarrow> jsval \<Rightarrow> jsval \<Rightarrow> ctx" where
  "observation cond t w =
     \<lparr> condition = cond, rawConditionMain = JStr cond, description = JStr '''',
       temp = t, feelsLike = t, windSpeed = w,
       cloudPct = JNull, visibilityM = JNull, rainMm1h = JNull, snowMm1h = JNull \<rparr>"

section \<open>Insight selector\<close>

text \<open>
  \<open>pickDailyInsight(insightPool)\<close>. The value that \<open>Math.random()\<close> returns is the
  parameter \<open>random\<close>, a number with \<open>0 \<le> random < 1\<close>. Reading an array at an index
  that it does not have gives \<open>undefined\<close>.
\<close>

definition array_at :: "jsval list \<Rightarrow> int \<Rightarrow> jsval" where
  "array_at xs i = (if 0 \<le> i \<and> i < int (length xs) then xs ! nat i else JUndefined)"

definition pickDailyInsight :: "rat \<Rightarrow> jsval \<Rightarrow> jsval" where
  "pickDailyInsight random insightPool =
     (case insightPool of
        JArr xs \<Rightarrow>
          (if length xs = 0 then JStr ''''
           else (let randomIndex = \<lfloor>random * of_nat (length xs)\<rfloor>
                 in array_at xs randomIndex))
      | _ \<Rightarrow> JStr '''')"

section \<open>Impact score\<close>

definition clamp :: "jsnum \<Rightarrow> jsnum \<Rightarrow> jsnum \<Rightarrow> jsnum" where
  "clamp n mn mx = Math_max mn (Math_min mx n)"


text \<open>
  The additive model of the specification, in exact arithmetic. A field is read as a
  number when it is one: \<open>None\<close> stands for a value that is not a number.
\<close>

fun as_number :: "jsnum \<Rightarrow> rat option" where
  "as_number NaN = None"
| "as_number (Fin r) = Some r"

definition spec_clamp :: "rat \<Rightarrow> rat \<Rightarrow> rat \<Rightarrow> rat" where
  "spec_clamp x lo hi = max lo (min hi x)"

definition rain_contribution :: "rat option \<Rightarrow> rat" where
  "rain_contribution rain =
     (case rain of Some r \<Rightarrow> if r > 0 then spec_clamp (r * 12) 10 45 else 0 | None \<Rightarrow> 0)"

definition snow_contribution :: "rat option \<Rightarrow> rat" where
  "snow_contribution snow =
     (case snow of Some s \<Rightarrow> if s > 0 then spec_clamp (s * 10) 10 40 else 0 | None \<Rightarrow> 0)"

definition wind_contribution :: "rat option \<Rightarrow> rat" where
  "wind_contribution wind =
     (case wind of Some w \<Rightarrow> if w > 6 then spec_clamp ((w - 6) * 4) 0 25 else 0 | None \<Rightarrow> 0)"

definition heat_contribution :: "rat option \<Rightarrow> rat" where
  "heat_contribution temperature =
     (case temperature of
        Some t \<Rightarrow> if t \<ge> 28 then spec_clamp ((t - 27) * 4) 4 25 else 0
      | None \<Rightarrow> 0)"

definition cold_contribution :: "rat option \<Rightarrow> rat" where
  "cold_contribution temperature =
     (case temperature of
        Some t \<Rightarrow> if t \<le> 2 then spec_clamp ((3 - t) * 5) 5 30 else 0
      | None \<Rightarrow> 0)"

definition visibility_contribution :: "rat option \<Rightarrow> rat" where
  "visibility_contribution visibility =
     (case visibility of
        Some v \<Rightarrow> if 0 < v \<and> v < 2000 then spec_clamp ((2000 - v) / 80) 5 25 else 0
      | None \<Rightarrow> 0)"

text \<open>
  How the model reads the context: temperature and wind speed by their numeric
  conversion, the precipitation depths with the default 0 when absent, the visibility
  only when it is of type number.
\<close>

definition ctx_temperature :: "(jsval \<Rightarrow> jsnum) \<Rightarrow> ctx \<Rightarrow> rat option" where
  "ctx_temperature cv c = as_number (ToNumber cv (temp c))"

definition ctx_wind :: "(jsval \<Rightarrow> jsnum) \<Rightarrow> ctx \<Rightarrow> rat option" where
  "ctx_wind cv c = as_number (ToNumber cv (windSpeed c))"

definition ctx_rain :: "(jsval \<Rightarrow> jsnum) \<Rightarrow> ctx \<Rightarrow> rat option" where
  "ctx_rain cv c =
     (if rainMm1h c = JUndefined \<or> rainMm1h c = JNull then Some 0
      else as_number (ToNumber cv (rainMm1h c)))"

definition ctx_snow :: "(jsval \<Rightarrow> jsnum) \<Rightarrow> ctx \<Rightarrow> rat option" where
  "ctx_snow cv c =
     (if snowMm1h c = JUndefined \<or> snowMm1h c = JNull then Some 0
      else as_number (ToNumber cv (snowMm1h c)))"

definition ctx_visibility :: "ctx \<Rightarrow> rat option" where
  "ctx_visibility c = (case visibilityM c of JNum n \<Rightarrow> as_number n | _ \<Rightarrow> None)"

definition spec_impact_score :: "(jsval \<Rightarrow> jsnum) \<Rightarrow> ctx \<Rightarrow> int" where
  "spec_impact_score cv c =
     (let total = rain_contribution (ctx_rain cv c)
                + snow_contribution (ctx_snow cv c)
                + wind_contribution (ctx_wind cv c)
                + heat_contribution (ctx_temperature cv c)
                + cold_contribution (ctx_temperature cv c)
                + visibility_contribution (ctx_visibility c)
      in max 0 (min 100 (round total)))"

subsection \<open>The score in double-precision arithmetic\<close>

text \<open>
  The numbers of the program are IEEE 754 doubles: every number read and every result
  of \<open>+\<close>, \<open>-\<close>, \<open>*\<close> and \<open>/\<close> is the double nearest to the exact value, a tie going to
  the even mantissa. \<open>floor_log2 x\<close> is the exponent \<open>e\<close> with \<open>2^e \<le> x < 2^(e+1)\<close> for
  a positive \<open>x\<close>; the doubles around \<open>x\<close> are the multiples of \<open>2^(e-52)\<close>, and below
  \<open>2^(-1022)\<close> the multiples of \<open>2^(-1074)\<close>. A result beyond the largest double is
  \<open>Infinity\<close> in the program and stays a large number here; in \<open>getImpactScore\<close> only a
  product can be that large, and it goes straight into a \<open>clamp\<close> with a finite upper
  bound, which returns that bound in both cases.
\<close>

definition floor_log2 :: "rat \<Rightarrow> int" where
  "floor_log2 x =
     (let k = bitlen (fst (quotient_of x)) - bitlen (snd (quotient_of x))
      in if 2 powi k \<le> x then k else k - 1)"

definition round_half_even :: "rat \<Rightarrow> int" where
  "round_half_even y =
     (let f = \<lfloor>y\<rfloor>; d = y - of_int f
      in if d < 1 / 2 then f
         else if 1 / 2 < d then f + 1
         else if even f then f else f + 1)"

definition nearest_double :: "rat \<Rightarrow> rat" where
  "nearest_double x =
     (if x = 0 then 0
      else (let e = max (floor_log2 \<bar>x\<bar>) (- 1022);
                u = 2 powi (e - 52)
            in of_int (round_half_even (x / u)) * u))"

fun to_double :: "jsnum \<Rightarrow> jsnum" where
  "to_double (Fin r) = Fin (nearest_double r)"
| "to_double NaN = NaN"

definition d_add :: "jsnum \<Rightarrow> jsnum \<Rightarrow> jsnum" where
  "d_add a b = to_double (js_add a b)"

definition d_sub :: "jsnum \<Rightarrow> jsnum \<Rightarrow> jsnum" where
  "d_sub a b = to_double (js_sub a b)"

definition d_mul :: "jsnum \<Rightarrow> jsnum \<Rightarrow> jsnum" where
  "d_mul a b = to_double (js_mul a b)"

definition d_div :: "jsnum \<Rightarrow> jsnum \<Rightarrow> jsnum" where
  "d_div a b = to_double (js_div a b)"

text \<open>
  \<open>getImpactScore(ctx)\<close> with the arithmetic of doubles: the function above, statement
  by statement, with every number read as a double and every arithmetic result rounded.
  Comparisons, \<open>Math.max\<close>, \<open>Math.min\<close> and \<open>Math.round\<close> are exact on doubles.
\<close>

definition getImpactScore_double :: "(jsval \<Rightarrow> jsnum) \<Rightarrow> ctx \<Rightarrow> jsnum" where
  "getImpactScore_double cv c =
     (let score0 = Fin 0;
          t = to_double (ToNumber cv (temp c));
          w = to_double (ToNumber cv (windSpeed c));
          rain = to_double (ToNumber cv (nullish (rainMm1h c) (JNum (Fin 0))));
          snow = to_double (ToNumber cv (nullish (snowMm1h c) (JNum (Fin 0))));
          score1 = (if js_gt rain (Fin 0)
                    then d_add score0 (clamp (d_mul rain (Fin 12)) (Fin 10) (Fin 45))
                    else score0);
          score2 = (if js_gt snow (Fin 0)
                    then d_add score1 (clamp (d_mul snow (Fin 10)) (Fin 10) (Fin 40))
                    else score1);
          score3 = (if \<not> Number_isNaN w \<and> js_gt w (Fin 6)
                    then d_add score2 (clamp (d_mul (d_sub w (Fin 6)) (Fin 4)) (Fin 0) (Fin 25))
                    else score2);
          score4 = (if \<not> Number_isNaN t \<and> js_ge t (Fin 28)
                    then d_add score3 (clamp (d_mul (d_sub t (Fin 27)) (Fin 4)) (Fin 4) (Fin 25))
                    else score3);
          score5 = (if \<not> Number_isNaN t \<and> js_le t (Fin 2)
                    then d_add score4 (clamp (d_mul (d_sub (Fin 3) t) (Fin 5)) (Fin 5) (Fin 30))
                    else score4);
          vis = visibilityM c;
          score6 = (if typeof_number vis \<and> js_gt (to_double (ToNumber cv vis)) (Fin 0)
                       \<and> js_lt (to_double (ToNumber cv vis)) (Fin 2000)
                    then d_add score5
                           (clamp (d_div (d_sub (Fin 2000) (to_double (ToNumber cv vis))) (Fin 80))
                              (Fin 5) (Fin 25))
                    else score5)
      in clamp (Math_round score6) (Fin 0) (Fin 100))"

text \<open>
  The additive model in the same arithmetic. A contribution is \<open>None\<close> when its
  condition does not hold; the contributions that are there are added in the order
  rain, snow, wind, heat, cold, visibility, every product, difference, quotient and
  partial sum being rounded to the nearest double.
\<close>

definition rain_term :: "rat option \<Rightarrow> rat option" where
  "rain_term rain =
     (case rain of
        Some r \<Rightarrow> if r > 0 then Some (spec_clamp (nearest_double (r * 12)) 10 45) else None
      | None \<Rightarrow> None)"

definition snow_term :: "rat option \<Rightarrow> rat option" where
  "snow_term snow =
     (case snow of
        Some s \<Rightarrow> if s > 0 then Some (spec_clamp (nearest_double (s * 10)) 10 40) else None
      | None \<Rightarrow> None)"

definition wind_term :: "rat option \<Rightarrow> rat option" where
  "wind_term wind =
     (case wind of
        Some w \<Rightarrow>
          if w > 6 then Some (spec_clamp (nearest_double (nearest_double (w - 6) * 4)) 0 25)
          else None
      | None \<Rightarrow> None)"

definition heat_term :: "rat option \<Rightarrow> rat option" where
  "heat_term temperature =
     (case temperature of
        Some t \<Rightarrow>
          if t \<ge> 28 then Some (spec_clamp (nearest_double (nearest_double (t - 27) * 4)) 4 25)
          else None
      | None \<Rightarrow> None)"

definition cold_term :: "rat option \<Rightarrow> rat option" where
  "cold_term temperature =
     (case temperature of
        Some t \<Rightarrow>
          if t \<le> 2 then Some (spec_clamp (nearest_double (nearest_double (3 - t) * 5)) 5 30)
          else None
      | None \<Rightarrow> None)"

definition visibility_term :: "rat option \<Rightarrow> rat option" where
  "visibility_term visibility =
     (case visibility of
        Some v \<Rightarrow>
          if 0 < v \<and> v < 2000
          then Some (spec_clamp (nearest_double (nearest_double (2000 - v) / 80)) 5 25)
          else None
      | None \<Rightarrow> None)"

fun add_term :: "rat \<Rightarrow> rat option \<Rightarrow> rat" where
  "add_term s None = s"
| "add_term s (Some x) = nearest_double (s + x)"

definition as_double :: "rat option \<Rightarrow> rat option" where
  "as_double x = map_option nearest_double x"

definition spec_impact_score_double :: "(jsval \<Rightarrow> jsnum) \<Rightarrow> ctx \<Rightarrow> int" where
  "spec_impact_score_double cv c =
     (let s1 = add_term 0 (rain_term (as_double (ctx_rain cv c)));
          s2 = add_term s1 (snow_term (as_double (ctx_snow cv c)));
          s3 = add_term s2 (wind_term (as_double (ctx_wind cv c)));
          s4 = add_term s3 (heat_term (as_double (ctx_temperature cv c)));
          s5 = add_term s4 (cold_term (as_double (ctx_temperature cv c)));
          s6 = add_term s5 (visibility_term (as_double (ctx_visibility c)))
      in max 0 (min 100 (round s6)))"

text \<open>
  Two contexts on which the two arithmetics part: a rain depth of 1.4 mm with a
  visibility of 1384 m, and a snow depth that is the double nearest to 1.15 mm; both at
  10 degrees and 3 m/s, which contribute nothing.
\<close>

definition rain_tie :: ctx where
  "rain_tie =
     (observation ''rain'' (JNum (Fin 10)) (JNum (Fin 3)))
       \<lparr> visibilityM := JNum (Fin 1384), rainMm1h := JNum (Fin (7 / 5)) \<rparr>"

definition snow_tie :: ctx where
  "snow_tie =
     (observation ''snow'' (JNum (Fin 10)) (JNum (Fin 3)))
       \<lparr> snowMm1h := JNum (Fin (5179139571476070 / 4503599627370496)) \<rparr>"

section \<open>Badges\<close>

record badge =
  "text" :: string
  tone :: string

text \<open>
  \<open>getBadges(ctx)\<close>: \<open>badges1\<close> to \<open>badges7\<close> are the array after each of the seven
  rules. The text of the last badge has a letter outside ASCII, written as the two bytes
  of its UTF-8 encoding.
\<close>

definition getBadges :: "(jsval \<Rightarrow> jsnum) \<Rightarrow> ctx \<Rightarrow> badge list" where
  "getBadges cv c =
     (let badges0 = [];
          t = ToNumber cv (temp c);
          w = ToNumber cv (windSpeed c);
          rain = ToNumber cv (nullish (rainMm1h c) (JNum (Fin 0)));
          snow = ToNumber cv (nullish (snowMm1h c) (JNum (Fin 0)));
          vis = visibilityM c;
          badges1 = (if js_ge rain (Fin 2)
                     then badges0 @ [\<lparr>text = ''Starker Regen'', tone = ''danger''\<rparr>]
                     else if js_gt rain (Fin 0)
                     then badges0 @ [\<lparr>text = ''Nass'', tone = ''warn''\<rparr>]
                     else badges0);
          badges2 = (if js_gt snow (Fin 0) \<and> js_le t (Fin 1)
                     then badges1 @ [\<lparr>text = ''Glattegefahr'', tone = ''danger''\<rparr>]
                     else if js_gt snow (Fin 0)
                     then badges1 @ [\<lparr>text = ''Schnee'', tone = ''warn''\<rparr>]
                     else badges1);
          badges3 = (if typeof_number vis \<and> js_lt (ToNumber cv vis) (Fin 1000)
                     then badges2 @ [\<lparr>text = ''Sicht schlecht'', tone = ''warn''\<rparr>]
                     else badges2);
          badges4 = (if \<not> Number_isNaN w \<and> js_ge w (Fin 10)
                     then badges3 @ [\<lparr>text = ''Sehr windig'', tone = ''warn''\<rparr>]
                     else badges3);
          badges5 = (if \<not> Number_isNaN t \<and> js_ge t (Fin 30)
                     then badges4 @ [\<lparr>text = ''Hitze'', tone = ''warn''\<rparr>]
                     else badges4);
          badges6 = (if \<not> Number_isNaN t \<and> js_le t (Fin 0)
                     then badges5 @ [\<lparr>text = ''Frost'', tone = ''warn''\<rparr>]
                     else badges5);
          badges7 = (if typeof_number (cloudPct c) \<and> js_ge (ToNumber cv (cloudPct c)) (Fin 85)
                     then badges6 @ [\<lparr>text = ''Sehr bew'' @ [CHR 0xC3, CHR 0xB6] @ ''lkt'',
                                      tone = ''neutral''\<rparr>]
                     else badges6)
      in badges7)"

section \<open>Forecast window extractor\<close>

text \<open>
  \<open>meteoCodeToTag(code)\<close>. \<open>===\<close> and \<open>Array.prototype.includes\<close> compare without
  conversion, so only a value of type number can match.
\<close>

definition array_includes :: "jsval list \<Rightarrow> jsval \<Rightarrow> bool" where
  "array_includes xs v = (v \<in> set xs)"

definition nums :: "rat list \<Rightarrow> jsval list" where
  "nums rs = map (\<lambda>r. JNum (Fin r)) rs"

definition meteoCodeToTag :: "jsval \<Rightarrow> string" where
  "meteoCodeToTag code =
     (if code = JNum (Fin 0) then ''Klar''
      else if array_includes (nums [1, 2, 3]) code then ''Wolkig''
      else if array_includes (nums [45, 48]) code then ''Nebel''
      else if array_includes (nums [51, 53, 55, 56, 57]) code then ''Niesel''
      else if array_includes (nums [61, 63, 65, 66, 67]) code then ''Regen''
      else if array_includes (nums [71, 73, 75, 77]) code then ''Schnee''
      else if array_includes (nums [80, 81, 82]) code then ''Schauer''
      else if array_includes (nums [95, 96, 99]) code then ''Gewitter''
      else ''Wechselhaft'')"

text \<open>
  The weather-code table of the specification, one row per code, with the tags as the
  program spells them: \<open>Klar\<close> clear, \<open>Wolkig\<close> cloudy, \<open>Nebel\<close> fog, \<open>Niesel\<close>
  drizzle, \<open>Regen\<close> rain, \<open>Schnee\<close> snow, \<open>Schauer\<close> showers, \<open>Gewitter\<close>
  thunderstorm, and \<open>Wechselhaft\<close> mixed for everything else.
\<close>

definition code_table :: "(rat \<times> string) list" where
  "code_table =
     [(0, ''Klar''),
      (1, ''Wolkig''), (2, ''Wolkig''), (3, ''Wolkig''),
      (45, ''Nebel''), (48, ''Nebel''),
      (51, ''Niesel''), (53, ''Niesel''), (55, ''Niesel''), (56, ''Niesel''), (57, ''Niesel''),
      (61, ''Regen''), (63, ''Regen''), (65, ''Regen''), (66, ''Regen''), (67, ''Regen''),
      (71, ''Schnee''), (73, ''Schnee''), (75, ''Schnee''), (77, ''Schnee''),
      (80, ''Schauer''), (81, ''Schauer''), (82, ''Schauer''),
      (95, ''Gewitter''), (96, ''Gewitter''), (99, ''Gewitter'')]"

definition table_tag :: "jsval \<Rightarrow> string" where
  "table_tag code =
     (case code of
        JNum (Fin r) \<Rightarrow> (case map_of code_table r of Some tag \<Rightarrow> tag | None \<Rightarrow> ''Wechselhaft'')
      | _ \<Rightarrow> ''Wechselhaft'')"

text \<open>
  The hourly part of the forecast payload: five parallel arrays. An array that the
  payload does not have is the empty one, as \<open>fx?.hourly?.time || []\<close> makes it.
\<close>

record hourly =
  time :: "jsval list"
  temperature_2m :: "jsval list"
  precipitation_probability :: "jsval list"
  wind_speed_10m :: "jsval list"
  weather_code :: "jsval list"

text \<open>One element of \<open>items\<close>; the fields are those of the object literal pushed.\<close>

record item =
  item_time :: jsval
  item_temp :: jsval
  item_pop :: jsval
  item_wind :: jsval
  item_tag :: string

definition make_item :: "hourly \<Rightarrow> nat \<Rightarrow> item" where
  "make_item fx i =
     \<lparr> item_time = array_at (time fx) (int i),
       item_temp = array_at (temperature_2m fx) (int i),
       item_pop = array_at (precipitation_probability fx) (int i),
       item_wind = array_at (wind_speed_10m fx) (int i),
       item_tag = meteoCodeToTag (array_at (weather_code fx) (int i)) \<rparr>"

text \<open>
  The loop of \<open>renderHourlyUntilEndOfDay\<close>, from index \<open>i\<close> with the items collected
  so far. \<open>now\<close> and \<open>end\<close> are the time values, in milliseconds, of the two \<open>Date\<close>
  objects that the function creates: the current instant, and 23:59:59.999 of the
  current day in local time. \<open>date\<close> is the time value of \<open>new Date(times[i])\<close>, which
  is \<open>NaN\<close> for a text that is not a date. The function then writes the items to the
  page; the model returns them.
\<close>

function hourly_loop ::
  "(jsval \<Rightarrow> jsnum) \<Rightarrow> rat \<Rightarrow> rat \<Rightarrow> hourly \<Rightarrow> nat \<Rightarrow> item list \<Rightarrow> item list" where
  "hourly_loop date now end fx i items =
     (if i < length (time fx) then
        (let t = date (array_at (time fx) (int i))
         in if js_lt t (Fin now) then hourly_loop date now end fx (i + 1) items
            else if js_gt t (Fin end) then items
            else hourly_loop date now end fx (i + 1) (items @ [make_item fx i]))
      else items)"
  by pat_completeness auto
termination
  by (relation "measure (\<lambda>(date, now, end, fx, i, items). length (time fx) - i)") auto

definition renderHourlyUntilEndOfDay ::
  "(jsval \<Rightarrow> jsnum) \<Rightarrow> rat \<Rightarrow> rat \<Rightarrow> hourly \<Rightarrow> item list" where
  "renderHourlyUntilEndOfDay date now end fx = hourly_loop date now end fx 0 []"

text \<open>
  The window of the specification: the positions of the series whose timestamp lies
  between \<open>now\<close> and \<open>end\<close>, both included, in the order of the series.
\<close>

definition in_window :: "(jsval \<Rightarrow> jsnum) \<Rightarrow> rat \<Rightarrow> rat \<Rightarrow> hourly \<Rightarrow> nat \<Rightarrow> bool" where
  "in_window date now end fx i =
     (case date (array_at (time fx) (int i)) of
        Fin t \<Rightarrow> now \<le> t \<and> t \<le> end
      | NaN \<Rightarrow> False)"

definition hourly_window ::
  "(jsval \<Rightarrow> jsnum) \<Rightarrow> rat \<Rightarrow> rat \<Rightarrow> hourly \<Rightarrow> item list" where
  "hourly_window date now end fx =
     map (make_item fx) (filter (in_window date now end fx) [0 ..< length (time fx)])"

text \<open>
  A series is chronologically ordered when every timestamp is a date and no timestamp
  is earlier than the one before it.
\<close>

definition timestamps :: "(jsval \<Rightarrow> jsnum) \<Rightarrow> hourly \<Rightarrow> rat option list" where
  "timestamps date fx = map (\<lambda>v. as_number (date v)) (time fx)"

fun chronological :: "rat option list \<Rightarrow> bool" where
  "chronological [] = True"
| "chronological [None] = False"
| "chronological [Some a] = True"
| "chronological (Some a # Some b # ts) = (a \<le> b \<and> chronological (Some b # ts))"
| "chronological (_ # _ # ts) = False"

text \<open>
  The scan as the specification describes it: an entry before \<open>now\<close> is skipped, the
  scan stops at the first entry that is not before \<open>now\<close> and is past \<open>end\<close>, and every
  other entry met is kept.
\<close>

definition before_now :: "(jsval \<Rightarrow> jsnum) \<Rightarrow> rat \<Rightarrow> hourly \<Rightarrow> nat \<Rightarrow> bool" where
  "before_now date now fx i = js_lt (date (array_at (time fx) (int i))) (Fin now)"

definition past_end :: "(jsval \<Rightarrow> jsnum) \<Rightarrow> rat \<Rightarrow> hourly \<Rightarrow> nat \<Rightarrow> bool" where
  "past_end date end fx i = js_gt (date (array_at (time fx) (int i))) (Fin end)"

definition scanned :: "(jsval \<Rightarrow> jsnum) \<Rightarrow> rat \<Rightarrow> rat \<Rightarrow> hourly \<Rightarrow> nat list \<Rightarrow> nat list" where
  "scanned date now end fx positions =
     filter (\<lambda>i. \<not> before_now date now fx i)
       (takeWhile (\<lambda>i. before_now date now fx i \<or> \<not> past_end date end fx i) positions)"

text \<open>
  A \<open>Date\<close> made from a number has that number as its time value; the example series
  below gives its timestamps as numbers.
\<close>

definition date_of_number :: "jsval \<Rightarrow> jsnum" where
  "date_of_number v = (case v of JNum n \<Rightarrow> n | _ \<Rightarrow> NaN)"

definition example_series :: hourly where
  "example_series =
     \<lparr> time = nums [1, 2, 3, 4],
       temperature_2m = nums [10, 11, 12, 13],
       precipitation_probability = [],
       wind_speed_10m = nums [5, 6],
       weather_code = nums [0, 61, 95, 3] \<rparr>"

section \<open>Properties of the condition normalizer\<close>

lemma str_includes_sublist: "str_includes s p \<longleftrightarrow> sublist p s"
  by (induction s) (auto simp: sublist_Cons_right)

lemma normalizeCondition_JStr:
  "normalizeCondition (JStr s) = Inr (first_match s)"
  by (simp add: normalizeCondition_def js_or_def first_match_def priority_table_def
      keyword_matches_def toLowerCase_def str_includes_sublist Let_def)

lemma normalizeCondition_falsy:
  "\<not> truthy v \<Longrightarrow> normalizeCondition v = Inr ''other''"
  by (simp add: normalizeCondition_def js_or_def toLowerCase_def)

lemma normalizeCondition_returns_iff:
  "(\<exists>k. normalizeCondition v = Inr k) \<longleftrightarrow> (\<not> truthy v \<or> (\<exists>s. v = JStr s))"
proof (cases "truthy v")
  case False
  then show ?thesis by (simp add: normalizeCondition_falsy)
next
  case True
  then show ?thesis
    by (cases v) (simp_all add: normalizeCondition_def js_or_def Let_def)
qed

text \<open>
  Claim C8. \<open>normalizeCondition\<close> returns a category, without error, for an absent
  label (\<open>undefined\<close> or \<open>null\<close>) and for every string, and the category is the one of
  the first row of the priority table with a keyword that occurs in the label, letter
  case ignored: thunder before drizzle and rain, before snow, before cloud, before
  clear. An absent label, the empty string and the unrecognized label "Haze" give
  \<open>other\<close>.
\<close>

theorem normalizeCondition_priority_table:
  "normalizeCondition JUndefined = Inr ''other''
   \<and> normalizeCondition JNull = Inr ''other''
   \<and> normalizeCondition (JStr '''') = Inr ''other''
   \<and> normalizeCondition (JStr ''Haze'') = Inr ''other''
   \<and> normalizeCondition (JStr ''Light RAIN with Thunder'') = Inr ''thunderstorm''
   \<and> (\<forall>label. normalizeCondition (JStr label) = Inr (first_match label))"
proof -
  have absent: "normalizeCondition JUndefined = Inr ''other''"
    "normalizeCondition JNull = Inr ''other''"
    "normalizeCondition (JStr '''') = Inr ''other''"
    by (simp_all add: normalizeCondition_falsy)
  have haze: "normalizeCondition (JStr ''Haze'') = Inr ''other''"
    by (simp add: normalizeCondition_def js_or_def toLowerCase_def toLowerCaseChar_def)
  have thunder: "normalizeCondition (JStr ''Light RAIN with Thunder'') = Inr ''thunderstorm''"
    by (simp add: normalizeCondition_def js_or_def toLowerCase_def toLowerCaseChar_def)
  show ?thesis
    using absent haze thunder normalizeCondition_JStr by blast
qed

section \<open>Properties of the context builder\<close>

lemma buildWeatherContext_Inr:
  "buildWeatherContext api = Inr c \<longleftrightarrow>
     (\<exists>k. normalizeCondition (opt_prop (opt_index0 (opt_prop api ''weather'')) ''main'') = Inr k
        \<and> c = \<lparr> condition = k,
                rawConditionMain = js_or (opt_prop (opt_index0 (opt_prop api ''weather'')) ''main'')
                                     (JStr ''Unknown''),
                description = js_or (opt_prop (opt_index0 (opt_prop api ''weather'')) ''description'')
                                (JStr ''''),
                temp = opt_prop (opt_prop api ''main'') ''temp'',
                feelsLike = opt_prop (opt_prop api ''main'') ''feels_like'',
                windSpeed = opt_prop (opt_prop api ''wind'') ''speed'',
                cloudPct = nullish (opt_prop (opt_prop api ''clouds'') ''all'') JNull,
                visibilityM = nullish (opt_prop api ''visibility'') JNull,
                rainMm1h = nullish (opt_prop (opt_prop api ''rain'') ''1h'') JNull,
                snowMm1h = nullish (opt_prop (opt_prop api ''snow'') ''1h'') JNull \<rparr>)"
  unfolding buildWeatherContext_def Let_def
  by (cases "normalizeCondition (opt_prop (opt_index0 (opt_prop api ''weather'')) ''main'')")
     auto

lemma buildWeatherContext_empty:
  "buildWeatherContext (JObj []) =
        Inr \<lparr> condition = ''other'', rawConditionMain = JStr ''Unknown'',
              description = JStr '''', temp = JUndefined, feelsLike = JUndefined,
              windSpeed = JUndefined, cloudPct = JNull, visibilityM = JNull,
              rainMm1h = JNull, snowMm1h = JNull \<rparr>"
  by (simp add: buildWeatherContext_def nullish_def normalizeCondition_falsy js_or_def)

lemma buildWeatherContext_fields:
  assumes "buildWeatherContext api = Inr c"
  shows "normalizeCondition (opt_prop (opt_index0 (opt_prop api ''weather'')) ''main'')
           = Inr (condition c)"
    and "temp c = opt_prop (opt_prop api ''main'') ''temp''"
    and "feelsLike c = opt_prop (opt_prop api ''main'') ''feels_like''"
    and "windSpeed c = opt_prop (opt_prop api ''wind'') ''speed''"
    and "cloudPct c = nullish (opt_prop (opt_prop api ''clouds'') ''all'') JNull"
    and "visibilityM c = nullish (opt_prop api ''visibility'') JNull"
    and "rainMm1h c = nullish (opt_prop (opt_prop api ''rain'') ''1h'') JNull"
    and "snowMm1h c = nullish (opt_prop (opt_prop api ''snow'') ''1h'') JNull"
  using assms unfolding buildWeatherContext_Inr by auto

text \<open>
  Claim C1, as stated, fails on the code. The context built from a payload without any
  field holds \<open>null\<close>, not 0, for the two precipitation depths, and \<open>undefined\<close>, not
  \<open>NaN\<close>, for the temperature; and a payload whose condition label is a number makes
  \<open>normalizeCondition\<close> raise a \<open>TypeError\<close>.
\<close>

theorem buildWeatherContext_defaults_counterexample:
  "(case buildWeatherContext (JObj []) of
      Inr c \<Rightarrow> rainMm1h c = JNull \<and> rainMm1h c \<noteq> JNum (Fin 0)
             \<and> snowMm1h c = JNull \<and> snowMm1h c \<noteq> JNum (Fin 0)
             \<and> temp c = JUndefined \<and> temp c \<noteq> JNum NaN
    | Inl e \<Rightarrow> False)
   \<and> buildWeatherContext (JObj [(''weather'', JArr [JObj [(''main'', JNum (Fin 5))]])])
       = Inl TypeError"
  by (simp add: buildWeatherContext_empty)
     (simp add: buildWeatherContext_def normalizeCondition_def js_or_def)

text \<open>
  Claim C1, amended. \<open>buildWeatherContext\<close> returns a context exactly when the condition
  label of the payload is falsy (absent, \<open>null\<close>, empty) or a string. In the context
  returned, an absent temperature, feels-like temperature or wind speed is left
  \<open>undefined\<close>, whose numeric conversion is \<open>NaN\<close>; an absent rain or snow depth is
  \<open>null\<close>, which \<open>?? 0\<close> reads as 0 in the score and the badges; an absent cloud
  percentage or visibility is \<open>null\<close>; an absent label gives the condition \<open>other\<close>.
  The payload without any field gives the context of these defaults.
\<close>

theorem buildWeatherContext_defaults:
  "(\<forall>api. (\<exists>c. buildWeatherContext api = Inr c) \<longleftrightarrow>
      (\<not> truthy (opt_prop (opt_index0 (opt_prop api ''weather'')) ''main'')
       \<or> (\<exists>s. opt_prop (opt_index0 (opt_prop api ''weather'')) ''main'' = JStr s)))
   \<and> (\<forall>api c cv. buildWeatherContext api = Inr c \<longrightarrow>
        (opt_prop (opt_prop api ''main'') ''temp'' = JUndefined
           \<longrightarrow> temp c = JUndefined \<and> ToNumber cv (temp c) = NaN)
      \<and> (opt_prop (opt_prop api ''main'') ''feels_like'' = JUndefined
           \<longrightarrow> feelsLike c = JUndefined \<and> ToNumber cv (feelsLike c) = NaN)
      \<and> (opt_prop (opt_prop api ''wind'') ''speed'' = JUndefined
           \<longrightarrow> windSpeed c = JUndefined \<and> ToNumber cv (windSpeed c) = NaN)
      \<and> (opt_prop (opt_prop api ''rain'') ''1h'' = JUndefined
           \<longrightarrow> rainMm1h c = JNull \<and> nullish (rainMm1h c) (JNum (Fin 0)) = JNum (Fin 0))
      \<and> (opt_prop (opt_prop api ''snow'') ''1h'' = JUndefined
           \<longrightarrow> snowMm1h c = JNull \<and> nullish (snowMm1h c) (JNum (Fin 0)) = JNum (Fin 0))
      \<and> (opt_prop (opt_prop api ''clouds'') ''all'' = JUndefined \<longrightarrow> cloudPct c = JNull)
      \<and> (opt_prop api ''visibility'' = JUndefined \<longrightarrow> visibilityM c = JNull)
      \<and> (opt_prop (opt_index0 (opt_prop api ''weather'')) ''main'' = JUndefined
           \<longrightarrow> condition c = ''other''))
   \<and> buildWeatherContext (JObj []) =
        Inr \<lparr> condition = ''other'', rawConditionMain = JStr ''Unknown'',
              description = JStr '''', temp = JUndefined, feelsLike = JUndefined,
              windSpeed = JUndefined, cloudPct = JNull, visibilityM = JNull,
              rainMm1h = JNull, snowMm1h = JNull \<rparr>"
proof (intro conjI allI impI)
  fix api
  have "(\<exists>c. buildWeatherContext api = Inr c) \<longleftrightarrow>
      (\<exists>k. normalizeCondition (opt_prop (opt_index0 (opt_prop api ''weather'')) ''main'') = Inr k)"
    unfolding buildWeatherContext_Inr by blast
  then show "(\<exists>c. buildWeatherContext api = Inr c) \<longleftrightarrow>
      (\<not> truthy (opt_prop (opt_index0 (opt_prop api ''weather'')) ''main'')
       \<or> (\<exists>s. opt_prop (opt_index0 (opt_prop api ''weather'')) ''main'' = JStr s))"
    by (simp only: normalizeCondition_returns_iff)
next
  fix api c and cv :: "jsval \<Rightarrow> jsnum"
  assume b: "buildWeatherContext api = Inr c"
  note f = buildWeatherContext_fields [OF b]
  {
    assume "opt_prop (opt_prop api ''main'') ''temp'' = JUndefined"
    then show "temp c = JUndefined" "ToNumber cv (temp c) = NaN" by (simp_all add: f(2))
  next
    assume "opt_prop (opt_prop api ''main'') ''feels_like'' = JUndefined"
    then show "feelsLike c = JUndefined" "ToNumber cv (feelsLike c) = NaN"
      by (simp_all add: f(3))
  next
    assume "opt_prop (opt_prop api ''wind'') ''speed'' = JUndefined"
    then show "windSpeed c = JUndefined" "ToNumber cv (windSpeed c) = NaN"
      by (simp_all add: f(4))
  next
    assume "opt_prop (opt_prop api ''rain'') ''1h'' = JUndefined"
    then show "rainMm1h c = JNull" "nullish (rainMm1h c) (JNum (Fin 0)) = JNum (Fin 0)"
      by (simp_all add: f(7) nullish_def)
  next
    assume "opt_prop (opt_prop api ''snow'') ''1h'' = JUndefined"
    then show "snowMm1h c = JNull" "nullish (snowMm1h c) (JNum (Fin 0)) = JNum (Fin 0)"
      by (simp_all add: f(8) nullish_def)
  next
    assume "opt_prop (opt_prop api ''clouds'') ''all'' = JUndefined"
    then show "cloudPct c = JNull" by (simp add: f(5) nullish_def)
  next
    assume "opt_prop api ''visibility'' = JUndefined"
    then show "visibilityM c = JNull" by (simp add: f(6) nullish_def)
  next
    assume "opt_prop (opt_index0 (opt_prop api ''weather'')) ''main'' = JUndefined"
    then show "condition c = ''other''"
      using f(1) by (simp add: normalizeCondition_falsy)
  }
next
  show "buildWeatherContext (JObj []) =
        Inr \<lparr> condition = ''other'', rawConditionMain = JStr ''Unknown'',
              description = JStr '''', temp = JUndefined, feelsLike = JUndefined,
              windSpeed = JUndefined, cloudPct = JNull, visibilityM = JNull,
              rainMm1h = JNull, snowMm1h = JNull \<rparr>"
    by (rule buildWeatherContext_empty)
qed

theorem buildWeatherContext_defaults_witness:
  "(\<exists>s. opt_prop (opt_index0 (opt_prop
            (JObj [(''weather'', JArr [JObj [(''main'', JStr ''Rain'')]])]) ''weather'')) ''main''
          = JStr s)
   \<and> opt_prop (opt_prop (JObj [(''weather'', JArr [JObj [(''main'', JStr ''Rain'')]])]) ''main'')
         ''temp'' = JUndefined
   \<and> opt_prop (opt_prop (JObj [(''weather'', JArr [JObj [(''main'', JStr ''Rain'')]])]) ''rain'')
         ''1h'' = JUndefined
   \<and> (\<exists>c. buildWeatherContext (JObj [(''weather'', JArr [JObj [(''main'', JStr ''Rain'')]])])
           = Inr c
         \<and> temp c = JUndefined \<and> ToNumber (\<lambda>v. NaN) (temp c) = NaN
         \<and> rainMm1h c = JNull \<and> nullish (rainMm1h c) (JNum (Fin 0)) = JNum (Fin 0))"
proof -
  let ?api = "JObj [(''weather'', JArr [JObj [(''main'', JStr ''Rain'')]])]"
  have label: "opt_prop (opt_index0 (opt_prop ?api ''weather'')) ''main'' = JStr ''Rain''"
    by simp
  have absent: "opt_prop (opt_prop ?api ''main'') ''temp'' = JUndefined"
    "opt_prop (opt_prop ?api ''rain'') ''1h'' = JUndefined"
    by simp_all
  have returns: "(\<exists>c. buildWeatherContext ?api = Inr c) \<longleftrightarrow>
      (\<not> truthy (opt_prop (opt_index0 (opt_prop ?api ''weather'')) ''main'')
       \<or> (\<exists>s. opt_prop (opt_index0 (opt_prop ?api ''weather'')) ''main'' = JStr s))"
    using buildWeatherContext_defaults [THEN conjunct1] by (rule spec)
  then obtain c where c: "buildWeatherContext ?api = Inr c"
    using label by blast
  have fields: "temp c = JUndefined \<and> ToNumber (\<lambda>v. NaN) (temp c) = NaN"
    "rainMm1h c = JNull \<and> nullish (rainMm1h c) (JNum (Fin 0)) = JNum (Fin 0)"
    using buildWeatherContext_defaults [THEN conjunct2, THEN conjunct1, rule_format, OF c]
      absent by blast+
  show ?thesis
    using label absent c fields by blast
qed

section \<open>Properties of the recommendation engine\<close>

lemma observation_simps:
  "condition (observation cond t w) = cond"
  "temp (observation cond t w) = t"
  "windSpeed (observation cond t w) = w"
  by (simp_all add: observation_def)

text \<open>
  Claim C2. A context whose condition is \<open>thunderstorm\<close> gets the thunderstorm branch,
  whatever its other fields are; in particular it never gets one of the two wind
  branches, also when the wind speed is 10 m/s or more.
\<close>

theorem thunderstorm_first:
  "condition c = ''thunderstorm'' \<Longrightarrow>
     getRecommendation cv c = Thunderstorm
     \<and> getRecommendation cv c \<noteq> WindyCold \<and> getRecommendation cv c \<noteq> Windy"
  by (simp add: getRecommendation_def)

theorem thunderstorm_first_witness:
  "condition (observation ''thunderstorm'' (JNum (Fin 8)) (JNum (Fin 12))) = ''thunderstorm''
   \<and> js_ge (ToNumber (\<lambda>v. NaN) (windSpeed (observation ''thunderstorm'' (JNum (Fin 8))
          (JNum (Fin 12))))) (Fin 10)
   \<and> getRecommendation (\<lambda>v. NaN) (observation ''thunderstorm'' (JNum (Fin 8)) (JNum (Fin 12)))
       = Thunderstorm"
  using thunderstorm_first [of "observation ''thunderstorm'' (JNum (Fin 8)) (JNum (Fin 12))"
      "\<lambda>v. NaN"]
  by (simp add: observation_simps js_ge_def)

text \<open>
  Claim C5, as stated, fails on the code: the wind rule comes before the rules for
  \<open>clear\<close> and \<open>clouds\<close>, so a clear sky at exactly 5 degrees, or a cloudy one at
  exactly 8 degrees, with a wind speed of 10 m/s gets the windy-and-cold branch.
\<close>

theorem boundary_counterexample:
  "getRecommendation (\<lambda>v. NaN) (observation ''clear'' (JNum (Fin 5)) (JNum (Fin 10))) = WindyCold
   \<and> getRecommendation (\<lambda>v. NaN) (observation ''clear'' (JNum (Fin 5)) (JNum (Fin 10)))
       \<noteq> ClearCold
   \<and> getRecommendation (\<lambda>v. NaN) (observation ''clouds'' (JNum (Fin 8)) (JNum (Fin 10)))
       = WindyCold
   \<and> getRecommendation (\<lambda>v. NaN) (observation ''clouds'' (JNum (Fin 8)) (JNum (Fin 10)))
       \<noteq> CloudsCool"
  by (simp add: getRecommendation_def observation_simps js_ge_def)

text \<open>
  Claim C5, amended. A boundary temperature belongs to the branch of the \<open><=\<close> test:
  snow at exactly 0 degrees gets the winter-gear branch and rain at exactly 6 degrees
  the cold-rain branch, whatever the wind; clear at exactly 5 degrees gets the
  deceptively-cold branch and clouds at exactly 8 degrees the cool-cloudy branch when
  the wind speed is not 10 m/s or more; and when the condition is none of thunderstorm,
  snow and rain, a wind speed of exactly 10 m/s at exactly 10 degrees gets the
  windy-and-cold branch.
\<close>

theorem boundary_branches:
  "(condition c = ''snow'' \<and> ToNumber cv (temp c) = Fin 0
      \<longrightarrow> getRecommendation cv c = SnowWinterGear)
   \<and> (condition c = ''rain'' \<and> ToNumber cv (temp c) = Fin 6
      \<longrightarrow> getRecommendation cv c = RainCold)
   \<and> (condition c = ''clear'' \<and> ToNumber cv (temp c) = Fin 5
        \<and> \<not> js_ge (ToNumber cv (windSpeed c)) (Fin 10)
      \<longrightarrow> getRecommendation cv c = ClearCold)
   \<and> (condition c = ''clouds'' \<and> ToNumber cv (temp c) = Fin 8
        \<and> \<not> js_ge (ToNumber cv (windSpeed c)) (Fin 10)
      \<longrightarrow> getRecommendation cv c = CloudsCool)
   \<and> (condition c \<noteq> ''thunderstorm'' \<and> condition c \<noteq> ''snow'' \<and> condition c \<noteq> ''rain''
        \<and> ToNumber cv (windSpeed c) = Fin 10 \<and> ToNumber cv (temp c) = Fin 10
      \<longrightarrow> getRecommendation cv c = WindyCold)"
  by (simp add: getRecommendation_def js_ge_def)

theorem boundary_branches_witness:
  "getRecommendation (\<lambda>v. NaN) (observation ''snow'' (JNum (Fin 0)) JUndefined) = SnowWinterGear
   \<and> getRecommendation (\<lambda>v. NaN) (observation ''rain'' (JNum (Fin 6)) JUndefined) = RainCold
   \<and> getRecommendation (\<lambda>v. NaN) (observation ''clear'' (JNum (Fin 5)) (JNum (Fin 3)))
       = ClearCold
   \<and> getRecommendation (\<lambda>v. NaN) (observation ''clouds'' (JNum (Fin 8)) (JNum (Fin 3)))
       = CloudsCool
   \<and> getRecommendation (\<lambda>v. NaN) (observation ''other'' (JNum (Fin 10)) (JNum (Fin 10)))
       = WindyCold"
proof (intro conjI)
  show "getRecommendation (\<lambda>v. NaN) (observation ''snow'' (JNum (Fin 0)) JUndefined)
          = SnowWinterGear"
    by (rule boundary_branches [THEN conjunct1, rule_format]) (simp add: observation_simps)
  show "getRecommendation (\<lambda>v. NaN) (observation ''rain'' (JNum (Fin 6)) JUndefined) = RainCold"
    by (rule boundary_branches [THEN conjunct2, THEN conjunct1, rule_format])
       (simp add: observation_simps)
  show "getRecommendation (\<lambda>v. NaN) (observation ''clear'' (JNum (Fin 5)) (JNum (Fin 3)))
          = ClearCold"
    by (rule boundary_branches [THEN conjunct2, THEN conjunct2, THEN conjunct1, rule_format])
       (simp add: observation_simps js_ge_def)
  show "getRecommendation (\<lambda>v. NaN) (observation ''clouds'' (JNum (Fin 8)) (JNum (Fin 3)))
          = CloudsCool"
    by (rule boundary_branches
          [THEN conjunct2, THEN conjunct2, THEN conjunct2, THEN conjunct1, rule_format])
       (simp add: observation_simps js_ge_def)
  show "getRecommendation (\<lambda>v. NaN) (observation ''other'' (JNum (Fin 10)) (JNum (Fin 10)))
          = WindyCold"
    by (rule boundary_branches
          [THEN conjunct2, THEN conjunct2, THEN conjunct2, THEN conjunct2, rule_format])
       (simp add: observation_simps)
qed

text \<open>
  Claim C10, as stated, fails on the code: with an absent temperature and a wind speed
  of 10 m/s, a clear or cloudy context gets the windy branch, the final else of the
  wind rule, not the pleasant or the mild-cloudy branch.
\<close>

theorem absent_temperature_counterexample:
  "ToNumber (\<lambda>v. NaN) (temp (observation ''clear'' JUndefined (JNum (Fin 10)))) = NaN
   \<and> getRecommendation (\<lambda>v. NaN) (observation ''clear'' JUndefined (JNum (Fin 10))) = Windy
   \<and> getRecommendation (\<lambda>v. NaN) (observation ''clear'' JUndefined (JNum (Fin 10)))
       \<noteq> ClearPleasant
   \<and> getRecommendation (\<lambda>v. NaN) (observation ''clouds'' JUndefined (JNum (Fin 10))) = Windy
   \<and> getRecommendation (\<lambda>v. NaN) (observation ''clouds'' JUndefined (JNum (Fin 10)))
       \<noteq> CloudsMild"
  by (simp add: getRecommendation_def observation_simps js_ge_def)

text \<open>
  Claim C10, amended. When the numeric conversion of the temperature is \<open>NaN\<close>, every
  comparison of the temperature is false and each rule takes its final else: snow gets
  the sleet branch and rain the standard-rain branch; clear gets the pleasant branch
  and clouds the mild-cloudy branch when the wind speed is not 10 m/s or more; and when
  it is, a condition other than thunderstorm, snow and rain gets the windy branch.
\<close>

theorem absent_temperature_branches:
  assumes "ToNumber cv (temp c) = NaN"
  shows "(condition c = ''snow'' \<longrightarrow> getRecommendation cv c = SnowSleet)
   \<and> (condition c = ''rain'' \<longrightarrow> getRecommendation cv c = RainStandard)
   \<and> (condition c = ''clear'' \<and> \<not> js_ge (ToNumber cv (windSpeed c)) (Fin 10)
        \<longrightarrow> getRecommendation cv c = ClearPleasant)
   \<and> (condition c = ''clouds'' \<and> \<not> js_ge (ToNumber cv (windSpeed c)) (Fin 10)
        \<longrightarrow> getRecommendation cv c = CloudsMild)
   \<and> (condition c \<noteq> ''thunderstorm'' \<and> condition c \<noteq> ''snow'' \<and> condition c \<noteq> ''rain''
        \<and> js_ge (ToNumber cv (windSpeed c)) (Fin 10)
        \<longrightarrow> getRecommendation cv c = Windy)"
  using assms by (simp add: getRecommendation_def js_ge_def)

theorem absent_temperature_branches_witness:
  "ToNumber (\<lambda>v. NaN) JUndefined = NaN
   \<and> getRecommendation (\<lambda>v. NaN) (observation ''snow'' JUndefined JUndefined) = SnowSleet
   \<and> getRecommendation (\<lambda>v. NaN) (observation ''rain'' JUndefined JUndefined) = RainStandard
   \<and> getRecommendation (\<lambda>v. NaN) (observation ''clear'' JUndefined (JNum (Fin 3)))
       = ClearPleasant
   \<and> getRecommendation (\<lambda>v. NaN) (observation ''clouds'' JUndefined (JNum (Fin 3)))
       = CloudsMild
   \<and> getRecommendation (\<lambda>v. NaN) (observation ''clear'' JUndefined (JNum (Fin 12))) = Windy"
proof -
  have nan: "ToNumber (\<lambda>v. NaN) (temp (observation cond JUndefined w)) = NaN" for cond w
    by (simp add: observation_simps)
  note b = absent_temperature_branches [OF nan]
  have "getRecommendation (\<lambda>v. NaN) (observation ''snow'' JUndefined JUndefined) = SnowSleet"
    by (rule b [THEN conjunct1, rule_format]) (simp add: observation_simps)
  moreover
  have "getRecommendation (\<lambda>v. NaN) (observation ''rain'' JUndefined JUndefined) = RainStandard"
    by (rule b [THEN conjunct2, THEN conjunct1, rule_format]) (simp add: observation_simps)
  moreover
  have "getRecommendation (\<lambda>v. NaN) (observation ''clear'' JUndefined (JNum (Fin 3)))
          = ClearPleasant"
    by (rule b [THEN conjunct2, THEN conjunct2, THEN conjunct1, rule_format])
       (simp add: observation_simps js_ge_def)
  moreover
  have "getRecommendation (\<lambda>v. NaN) (observation ''clouds'' JUndefined (JNum (Fin 3)))
          = CloudsMild"
    by (rule b [THEN conjunct2, THEN conjunct2, THEN conjunct2, THEN conjunct1, rule_format])
       (simp add: observation_simps js_ge_def)
  moreover
  have "getRecommendation (\<lambda>v. NaN) (observation ''clear'' JUndefined (JNum (Fin 12))) = Windy"
    by (rule b [THEN conjunct2, THEN conjunct2, THEN conjunct2, THEN conjunct2, rule_format])
       (simp add: observation_simps js_ge_def)
  ultimately show ?thesis by simp
qed

section \<open>Properties of the impact score\<close>


lemma clamp_Fin: "clamp (Fin x) (Fin lo) (Fin hi) = Fin (max lo (min hi x))"
  by (simp add: clamp_def)







lemma round_step:
  "clamp (Math_round (Fin x)) (Fin 0) (Fin 100)
     = Fin (of_int (max 0 (min 100 (round x))))"
  by (simp add: clamp_Fin round_def of_int_max of_int_min)

lemma as_number_nullish:
  "as_number (ToNumber cv (nullish v (JNum (Fin 0))))
     = (if v = JUndefined \<or> v = JNull then Some 0 else as_number (ToNumber cv v))"
  by (simp add: nullish_def)


lemma floor_rat_numeral:
  "\<lfloor>(numeral a / numeral b :: rat)\<rfloor> = numeral a div numeral b"
  by (metis floor_divide_of_int_eq of_int_numeral)






text \<open>
  The exponent brackets a positive number, and the nearest double is within half a unit
  in the last place of the exact value.
\<close>

lemma bitlen_powi_bounds:
  assumes "0 < n"
  shows "(2::rat) powi (bitlen n - 1) \<le> of_int n" and "of_int n < (2::rat) powi bitlen n"
proof -
  from bitlen_bounds [OF assms]
  have lo: "2 ^ nat (bitlen n - 1) \<le> n" and hi: "n < 2 ^ nat (bitlen n)" by simp_all
  have ge1: "1 \<le> bitlen n"
    using assms bitlen_eq_zero_iff [of n] bitlen_nonneg [of n] by linarith
  have "(of_int (2 ^ nat (bitlen n - 1)) :: rat) \<le> of_int n"
    using lo by (simp only: of_int_le_iff)
  then show "(2::rat) powi (bitlen n - 1) \<le> of_int n"
    using ge1 by (simp add: power_int_def)
  have "(of_int n :: rat) < of_int (2 ^ nat (bitlen n))"
    using hi by (simp only: of_int_less_iff)
  then show "of_int n < (2::rat) powi bitlen n"
    using ge1 by (simp add: power_int_def)
qed

lemma floor_log2_bounds:
  assumes "0 < x"
  shows "2 powi floor_log2 x \<le> x \<and> x < 2 powi (floor_log2 x + 1)"
proof -
  obtain p q where pq: "quotient_of x = (p, q)" by (cases "quotient_of x")
  have q: "0 < q" using quotient_of_denom_pos [OF pq] .
  have x: "x = of_int p / of_int q" using quotient_of_div [OF pq] .
  have p: "0 < p" using assms q unfolding x by (simp add: zero_less_divide_iff)
  let ?k = "bitlen p - bitlen q"
  note bp = bitlen_powi_bounds [OF p] and bq = bitlen_powi_bounds [OF q]
  have qpos: "(0::rat) < of_int q" using q by simp
  have "x * of_int q = of_int p" using q unfolding x by simp
  have up: "x < 2 powi (?k + 1)"
  proof -
    have "of_int p < (2::rat) powi bitlen p" by (rule bp(2))
    also have "\<dots> = 2 powi (?k + 1) * 2 powi (bitlen q - 1)"
      by (simp flip: power_int_add)
    also have "\<dots> \<le> 2 powi (?k + 1) * of_int q"
      using bq(1) by (intro mult_left_mono) simp_all
    finally show ?thesis using qpos unfolding x by (simp add: divide_less_eq)
  qed
  have low: "2 powi (?k - 1) \<le> x"
  proof -
    have "(2::rat) powi (?k - 1) * of_int q \<le> 2 powi (?k - 1) * 2 powi bitlen q"
      using bq(2) by (intro mult_left_mono) simp_all
    also have "\<dots> = 2 powi (bitlen p - 1)"
      by (simp flip: power_int_add)
    also have "\<dots> \<le> of_int p" by (rule bp(1))
    finally show ?thesis using qpos unfolding x by (simp add: le_divide_eq)
  qed
  show ?thesis
    using up low by (simp add: floor_log2_def pq Let_def not_le)
qed

lemma round_half_even_near: "\<bar>of_int (round_half_even y) - y\<bar> \<le> 1 / 2"
proof -
  have "of_int \<lfloor>y\<rfloor> \<le> y" and "y < of_int \<lfloor>y\<rfloor> + 1"
    by linarith+
  then show ?thesis
    unfolding round_half_even_def Let_def by (simp add: abs_le_iff)
qed

lemma nearest_double_near:
  "\<bar>nearest_double x - x\<bar> \<le> 2 powi (max (floor_log2 \<bar>x\<bar>) (- 1022) - 52) / 2"
proof (cases "x = 0")
  case True
  then show ?thesis by (simp add: nearest_double_def)
next
  case False
  define u :: rat where "u = 2 powi (max (floor_log2 \<bar>x\<bar>) (- 1022) - 52)"
  define n where "n = round_half_even (x / u)"
  have u: "0 < u" by (simp add: u_def)
  have nd: "nearest_double x = of_int n * u"
    using False by (simp add: nearest_double_def Let_def u_def n_def)
  have "of_int n * u - x = (of_int n - x / u) * u"
    using u by (simp add: left_diff_distrib)
  then have "\<bar>nearest_double x - x\<bar> = \<bar>of_int n - x / u\<bar> * u"
    using u by (simp add: nd abs_mult)
  also have "\<dots> \<le> 1 / 2 * u"
    using round_half_even_near [of "x / u"] u unfolding n_def
    by (intro mult_right_mono) simp_all
  finally show ?thesis by (simp add: u_def)
qed

text \<open>The score in doubles, step by step, is the additive model in doubles.\<close>

lemma rain_step_double:
  "(if js_gt (to_double r) (Fin 0)
    then d_add (Fin s) (clamp (d_mul (to_double r) (Fin 12)) (Fin 10) (Fin 45))
    else Fin s) = Fin (add_term s (rain_term (as_double (as_number r))))"
  by (cases r)
     (simp_all add: js_gt_def d_add_def d_mul_def clamp_Fin rain_term_def as_double_def
        spec_clamp_def)

lemma snow_step_double:
  "(if js_gt (to_double r) (Fin 0)
    then d_add (Fin s) (clamp (d_mul (to_double r) (Fin 10)) (Fin 10) (Fin 40))
    else Fin s) = Fin (add_term s (snow_term (as_double (as_number r))))"
  by (cases r)
     (simp_all add: js_gt_def d_add_def d_mul_def clamp_Fin snow_term_def as_double_def
        spec_clamp_def)

lemma wind_step_double:
  "(if \<not> Number_isNaN (to_double w) \<and> js_gt (to_double w) (Fin 6)
    then d_add (Fin s) (clamp (d_mul (d_sub (to_double w) (Fin 6)) (Fin 4)) (Fin 0) (Fin 25))
    else Fin s) = Fin (add_term s (wind_term (as_double (as_number w))))"
  by (cases w)
     (simp_all add: js_gt_def d_add_def d_mul_def d_sub_def clamp_Fin wind_term_def
        as_double_def spec_clamp_def)

lemma heat_step_double:
  "(if \<not> Number_isNaN (to_double t) \<and> js_ge (to_double t) (Fin 28)
    then d_add (Fin s) (clamp (d_mul (d_sub (to_double t) (Fin 27)) (Fin 4)) (Fin 4) (Fin 25))
    else Fin s) = Fin (add_term s (heat_term (as_double (as_number t))))"
  by (cases t)
     (simp_all add: js_ge_def d_add_def d_mul_def d_sub_def clamp_Fin heat_term_def
        as_double_def spec_clamp_def)

lemma cold_step_double:
  "(if \<not> Number_isNaN (to_double t) \<and> js_le (to_double t) (Fin 2)
    then d_add (Fin s) (clamp (d_mul (d_sub (Fin 3) (to_double t)) (Fin 5)) (Fin 5) (Fin 30))
    else Fin s) = Fin (add_term s (cold_term (as_double (as_number t))))"
  by (cases t)
     (simp_all add: d_add_def d_mul_def d_sub_def clamp_Fin cold_term_def
        as_double_def spec_clamp_def)

lemma visibility_step_double:
  "(if typeof_number vis \<and> js_gt (to_double (ToNumber cv vis)) (Fin 0)
      \<and> js_lt (to_double (ToNumber cv vis)) (Fin 2000)
    then d_add (Fin s)
           (clamp (d_div (d_sub (Fin 2000) (to_double (ToNumber cv vis))) (Fin 80))
              (Fin 5) (Fin 25))
    else Fin s)
   = Fin (add_term s (visibility_term
            (as_double (case vis of JNum n \<Rightarrow> as_number n | _ \<Rightarrow> None))))"
proof (cases vis)
  case (JNum n)
  then show ?thesis
    by (cases n)
       (simp_all add: js_gt_def d_add_def d_div_def d_sub_def clamp_Fin visibility_term_def
          as_double_def spec_clamp_def)
qed (simp_all add: visibility_term_def as_double_def)

lemma getImpactScore_double_spec:
  "getImpactScore_double cv c = Fin (of_int (spec_impact_score_double cv c))"
  unfolding getImpactScore_double_def spec_impact_score_double_def Let_def
    rain_step_double snow_step_double wind_step_double heat_step_double cold_step_double
    visibility_step_double round_step
  by (simp add: as_number_nullish ctx_rain_def ctx_snow_def ctx_wind_def ctx_temperature_def
      ctx_visibility_def)

lemma nearest_double_zero: "nearest_double 0 = 0"
  by (simp add: nearest_double_def)

lemma nearest_double_values:
  "nearest_double (- 1) = - 1"
  "nearest_double 3 = 3"
  "nearest_double 4 = 4"
  "nearest_double 20 = 20"
  "nearest_double 5000 = 5000"
  by code_simp+

text \<open>
  Claim C3, as stated, fails on the code: the score of the program, computed in
  doubles, is not always the score of the additive model computed exactly. For rain
  1.4 mm and visibility 1384 m the exact sum is 16.8 + 7.7 = 24.5, which rounds to 25;
  the program gets a sum just below 24.5 and returns 24. For the double nearest to
  1.15 mm of snow the exact product is just below 11.5 and rounds to 11; the program's
  product is 11.5 and it returns 12.
\<close>

theorem getImpactScore_reference_model_counterexample:
  "getImpactScore_double (\<lambda>v. NaN) rain_tie = Fin 24
   \<and> spec_impact_score (\<lambda>v. NaN) rain_tie = 25
   \<and> getImpactScore_double (\<lambda>v. NaN) rain_tie
       \<noteq> Fin (of_int (spec_impact_score (\<lambda>v. NaN) rain_tie))
   \<and> getImpactScore_double (\<lambda>v. NaN) snow_tie = Fin 12
   \<and> spec_impact_score (\<lambda>v. NaN) snow_tie = 11
   \<and> getImpactScore_double (\<lambda>v. NaN) snow_tie
       \<noteq> Fin (of_int (spec_impact_score (\<lambda>v. NaN) snow_tie))"
proof -
  have rain: "getImpactScore_double (\<lambda>v. NaN) rain_tie = Fin 24"
    "spec_impact_score (\<lambda>v. NaN) rain_tie = 25"
    by code_simp+
  have snow: "getImpactScore_double (\<lambda>v. NaN) snow_tie = Fin 12"
    "spec_impact_score (\<lambda>v. NaN) snow_tie = 11"
    by code_simp+
  show ?thesis
    unfolding rain snow by simp
qed

text \<open>
  Claim C3, amended. For every context, the score that \<open>getImpactScore\<close> returns is
  the one of the additive model evaluated in the arithmetic of doubles: the six
  contributions with their conditions and clamps (rain to 10..45 when the depth is
  above 0, snow to 10..40 when above 0, wind to 0..25 when the speed is a number above
  6, heat to 4..25 from 28 degrees, cold to 5..30 up to 2 degrees, visibility to 5..25
  for a number strictly between 0 and 2000), every product, difference, quotient and
  partial sum rounded to the nearest double, the sum then rounded to the nearest
  integer and clamped to 0..100. The context with temperature -1, wind speed 3, no
  rain, no snow and visibility 5000 has the score 20.
\<close>

theorem getImpactScore_double_reference_model:
  "(\<forall>cv c. getImpactScore_double cv c = Fin (of_int (spec_impact_score_double cv c)))
   \<and> (\<forall>cv cond raw descr feels cloud.
        getImpactScore_double cv
          \<lparr> condition = cond, rawConditionMain = raw, description = descr,
            temp = JNum (Fin (- 1)), feelsLike = feels, windSpeed = JNum (Fin 3),
            cloudPct = cloud, visibilityM = JNum (Fin 5000),
            rainMm1h = JNum (Fin 0), snowMm1h = JNum (Fin 0) \<rparr> = Fin 20)"
proof (intro conjI allI)
  fix cv c
  show "getImpactScore_double cv c = Fin (of_int (spec_impact_score_double cv c))"
    by (rule getImpactScore_double_spec)
next
  fix cv cond raw descr feels cloud
  show "getImpactScore_double cv
          \<lparr> condition = cond, rawConditionMain = raw, description = descr,
            temp = JNum (Fin (- 1)), feelsLike = feels, windSpeed = JNum (Fin 3),
            cloudPct = cloud, visibilityM = JNum (Fin 5000),
            rainMm1h = JNum (Fin 0), snowMm1h = JNum (Fin 0) \<rparr> = Fin 20"
    by (simp add: getImpactScore_double_def nullish_def js_gt_def js_ge_def clamp_Fin
        d_add_def d_mul_def d_sub_def nearest_double_zero nearest_double_values
        floor_rat_numeral)
qed



section \<open>Properties of the badges\<close>

text \<open>
  Claim C6. For the context with rain 3 mm, no snow, visibility 500 m, wind speed
  12 m/s, temperature -2 degrees and no cloud percentage, \<open>getBadges\<close> returns four
  badges in this order: heavy rain (\<open>Starker Regen\<close>, danger), poor visibility
  (\<open>Sicht schlecht\<close>, warn), very windy (\<open>Sehr windig\<close>, warn) and frost (\<open>Frost\<close>,
  warn).
\<close>

theorem getBadges_example:
  "getBadges cv
     \<lparr> condition = cond, rawConditionMain = raw, description = descr,
       temp = JNum (Fin (- 2)), feelsLike = feels, windSpeed = JNum (Fin 12),
       cloudPct = JNull, visibilityM = JNum (Fin 500),
       rainMm1h = JNum (Fin 3), snowMm1h = JNum (Fin 0) \<rparr>
   = [\<lparr>text = ''Starker Regen'', tone = ''danger''\<rparr>,
      \<lparr>text = ''Sicht schlecht'', tone = ''warn''\<rparr>,
      \<lparr>text = ''Sehr windig'', tone = ''warn''\<rparr>,
      \<lparr>text = ''Frost'', tone = ''warn''\<rparr>]"
  by (simp add: getBadges_def nullish_def js_gt_def js_ge_def)

section \<open>Properties of the insight selector\<close>

text \<open>
  Claim C9. For a pool that is not empty and every value of the random number in
  \<open>[0, 1)\<close>, hence every random index, \<open>pickDailyInsight\<close> returns a member of the pool;
  for the empty pool it returns the empty string.
\<close>

theorem pickDailyInsight_member:
  "(xs \<noteq> [] \<and> 0 \<le> random \<and> random < 1 \<longrightarrow> pickDailyInsight random (JArr xs) \<in> set xs)
   \<and> pickDailyInsight random (JArr []) = JStr ''''"
proof (intro conjI impI)
  assume a: "xs \<noteq> [] \<and> 0 \<le> random \<and> random < 1"
  let ?n = "length xs"
  let ?i = "\<lfloor>random * of_nat ?n\<rfloor>"
  have pos: "0 < ?n" using a by simp
  have "0 \<le> random * of_nat ?n" using a by simp
  then have lo: "0 \<le> ?i" by simp
  have "random * of_nat ?n < 1 * of_nat ?n"
    using a pos by (intro mult_strict_right_mono) simp_all
  then have "random * of_nat ?n < of_int (int ?n)" by simp
  then have hi: "?i < int ?n" by (simp only: floor_less_iff)
  have "array_at xs ?i = xs ! nat ?i"
    using lo hi by (simp add: array_at_def)
  moreover have "nat ?i < ?n" using lo hi by linarith
  ultimately have "array_at xs ?i \<in> set xs" by simp
  then show "pickDailyInsight random (JArr xs) \<in> set xs"
    using a by (simp add: pickDailyInsight_def Let_def)
next
  show "pickDailyInsight random (JArr []) = JStr ''''"
    by (simp add: pickDailyInsight_def)
qed

theorem pickDailyInsight_member_witness:
  "[JStr ''a'', JStr ''b'', JStr ''c''] \<noteq> [] \<and> (0 :: rat) \<le> 1 / 2 \<and> (1 / 2 :: rat) < 1
   \<and> pickDailyInsight (1 / 2) (JArr [JStr ''a'', JStr ''b'', JStr ''c''])
       \<in> set [JStr ''a'', JStr ''b'', JStr ''c'']"
  using pickDailyInsight_member [of "[JStr ''a'', JStr ''b'', JStr ''c'']" "1 / 2"]
  by simp

section \<open>Properties of the forecast window extractor\<close>

text \<open>
  The loop from position \<open>i\<close> appends the items of the positions that the scan keeps.
\<close>

lemma hourly_loop_scanned:
  "i \<le> length (time fx) \<Longrightarrow>
     hourly_loop date now end fx i items
       = items @ map (make_item fx) (scanned date now end fx [i ..< length (time fx)])"
proof (induction date now "end" fx i items rule: hourly_loop.induct)
  case (1 date now "end" fx i items)
  show ?case
  proof (cases "i < length (time fx)")
    case False
    with "1.prems" show ?thesis
      by (simp add: scanned_def)
  next
    case True
    then have upt: "[i ..< length (time fx)] = i # [i + 1 ..< length (time fx)]"
      by (simp add: upt_conv_Cons)
    have le: "i + 1 \<le> length (time fx)" using True by simp
    let ?t = "date (array_at (time fx) (int i))"
    show ?thesis
    proof (cases "js_lt ?t (Fin now)")
      case before: True
      have "hourly_loop date now end fx i items = hourly_loop date now end fx (i + 1) items"
        using True before by (subst hourly_loop.simps) (simp add: Let_def)
      also have "\<dots> = items @ map (make_item fx)
                          (scanned date now end fx [i + 1 ..< length (time fx)])"
        using "1.IH"(1) [OF True refl before le] .
      also have "scanned date now end fx [i + 1 ..< length (time fx)]
                   = scanned date now end fx [i ..< length (time fx)]"
        using before unfolding upt by (simp add: scanned_def before_now_def)
      finally show ?thesis .
    next
      case notbefore: False
      show ?thesis
      proof (cases "js_gt ?t (Fin end)")
        case past: True
        have "hourly_loop date now end fx i items = items"
          using True notbefore past by (subst hourly_loop.simps) (simp add: Let_def)
        moreover have "scanned date now end fx [i ..< length (time fx)] = []"
          using notbefore past unfolding upt
          by (simp add: scanned_def before_now_def past_end_def)
        ultimately show ?thesis by simp
      next
        case notpast: False
        have "hourly_loop date now end fx i items
                = hourly_loop date now end fx (i + 1) (items @ [make_item fx i])"
          using True notbefore notpast by (subst hourly_loop.simps) (simp add: Let_def)
        also have "\<dots> = (items @ [make_item fx i]) @ map (make_item fx)
                          (scanned date now end fx [i + 1 ..< length (time fx)])"
          using "1.IH"(2) [OF True refl notbefore notpast le] .
        also have "\<dots> = items @ map (make_item fx)
                          (scanned date now end fx [i ..< length (time fx)])"
          using notbefore notpast unfolding upt
          by (simp add: scanned_def before_now_def past_end_def)
        finally show ?thesis .
      qed
    qed
  qed
qed

lemma scan_sorted:
  fixes f :: "nat \<Rightarrow> rat"
  assumes "sorted (map f idxs)"
  shows "filter (\<lambda>i. \<not> f i < now) (takeWhile (\<lambda>i. f i < now \<or> \<not> end < f i) idxs)
           = filter (\<lambda>i. now \<le> f i \<and> f i \<le> end) idxs"
  using assms
proof (induction idxs)
  case Nil
  show ?case by simp
next
  case (Cons i idxs)
  then have later: "\<forall>j \<in> set idxs. f i \<le> f j" and rest: "sorted (map f idxs)"
    by simp_all
  note IH = Cons.IH [OF rest]
  show ?case
  proof (cases "f i < now \<or> \<not> end < f i")
    case True
    then show ?thesis using IH by auto
  next
    case False
    then have "\<forall>j \<in> set idxs. \<not> (now \<le> f j \<and> f j \<le> end)"
      using later by fastforce
    then have "filter (\<lambda>j. now \<le> f j \<and> f j \<le> end) idxs = []"
      by (simp add: filter_empty_conv)
    then show ?thesis using False by auto
  qed
qed

lemma chronological_sorted:
  "chronological ts \<Longrightarrow> (\<forall>x \<in> set ts. x \<noteq> None) \<and> sorted (map the ts)"
  by (induction ts rule: chronological.induct) auto

lemma timestamps_positions:
  "timestamps date fx
     = map (\<lambda>i. as_number (date (array_at (time fx) (int i)))) [0 ..< length (time fx)]"
proof -
  have "map (\<lambda>i. as_number (date (array_at (time fx) (int i)))) [0 ..< length (time fx)]
          = map (\<lambda>i. as_number (date (time fx ! i))) [0 ..< length (time fx)]"
    by (simp add: array_at_def)
  also have "\<dots> = map (\<lambda>v. as_number (date v)) (map (\<lambda>i. time fx ! i) [0 ..< length (time fx)])"
    by (simp add: comp_def)
  also have "\<dots> = timestamps date fx"
    by (simp only: map_nth timestamps_def)
  finally show ?thesis by simp
qed

lemma scanned_chronological:
  assumes "chronological (timestamps date fx)"
  shows "scanned date now end fx [0 ..< length (time fx)]
           = filter (in_window date now end fx) [0 ..< length (time fx)]"
proof -
  let ?idxs = "[0 ..< length (time fx)]"
  let ?f = "\<lambda>i. the (as_number (date (array_at (time fx) (int i))))"
  from chronological_sorted [OF assms]
  have some: "\<forall>i \<in> set ?idxs. as_number (date (array_at (time fx) (int i))) \<noteq> None"
    and sorted: "sorted (map ?f ?idxs)"
    by (simp_all add: timestamps_positions comp_def)
  have fin: "date (array_at (time fx) (int i)) = Fin (?f i)" if "i \<in> set ?idxs" for i
  proof (cases "date (array_at (time fx) (int i))")
    case NaN
    moreover have "as_number (date (array_at (time fx) (int i))) \<noteq> None"
      using some that by blast
    ultimately show ?thesis by simp
  next
    case (Fin t)
    then show ?thesis by simp
  qed
  have before: "before_now date now fx i \<longleftrightarrow> ?f i < now" if "i \<in> set ?idxs" for i
    unfolding before_now_def by (subst fin [OF that]) simp
  have past: "past_end date end fx i \<longleftrightarrow> end < ?f i" if "i \<in> set ?idxs" for i
    unfolding past_end_def js_gt_def by (subst fin [OF that]) simp
  have window: "in_window date now end fx i \<longleftrightarrow> now \<le> ?f i \<and> ?f i \<le> end"
    if "i \<in> set ?idxs" for i
    unfolding in_window_def by (subst fin [OF that]) simp
  have tw: "takeWhile (\<lambda>i. before_now date now fx i \<or> \<not> past_end date end fx i) ?idxs
          = takeWhile (\<lambda>i. ?f i < now \<or> \<not> end < ?f i) ?idxs"
    by (rule takeWhile_cong [OF refl]) (simp add: before past)
  have "scanned date now end fx ?idxs
          = filter (\<lambda>i. \<not> ?f i < now) (takeWhile (\<lambda>i. ?f i < now \<or> \<not> end < ?f i) ?idxs)"
    unfolding scanned_def tw
    by (rule filter_cong [OF refl]) (use before in \<open>auto dest: set_takeWhileD\<close>)
  also have "\<dots> = filter (\<lambda>i. now \<le> ?f i \<and> ?f i \<le> end) ?idxs"
    by (rule scan_sorted [OF sorted])
  also have "\<dots> = filter (in_window date now end fx) ?idxs"
    by (rule filter_cong [OF refl]) (simp add: window)
  finally show ?thesis .
qed

lemma meteoCodeToTag_table: "meteoCodeToTag code = table_tag code"
proof (cases code)
  case (JNum n)
  show ?thesis
  proof (cases n)
    case NaN
    with JNum show ?thesis
      by (simp add: meteoCodeToTag_def table_tag_def array_includes_def nums_def)
  next
    case (Fin r)
    with JNum show ?thesis
      by (simp add: meteoCodeToTag_def table_tag_def array_includes_def nums_def
          code_table_def)
  qed
qed (simp_all add: meteoCodeToTag_def table_tag_def array_includes_def nums_def)

text \<open>
  Claim C7. The items that \<open>renderHourlyUntilEndOfDay\<close> collects are those of the
  scan: entries before \<open>now\<close> are skipped and the scan stops at the first entry past
  \<open>end\<close>. For a chronologically ordered series they are exactly the entries whose
  timestamp lies between \<open>now\<close> and \<open>end\<close>, both included, in the order of the series.
  Each item carries the tag that the weather-code table gives for its code, and
  \<open>meteoCodeToTag\<close> is that table, with \<open>Wechselhaft\<close> (mixed) for everything else.
\<close>

theorem hourly_window_extracted:
  "renderHourlyUntilEndOfDay date now end fx
     = map (make_item fx) (scanned date now end fx [0 ..< length (time fx)])
   \<and> (chronological (timestamps date fx) \<longrightarrow>
        renderHourlyUntilEndOfDay date now end fx = hourly_window date now end fx)
   \<and> (\<forall>i. item_tag (make_item fx i) = table_tag (array_at (weather_code fx) (int i)))
   \<and> (\<forall>code. meteoCodeToTag code = table_tag code)"
proof (intro conjI impI allI)
  show scan: "renderHourlyUntilEndOfDay date now end fx
     = map (make_item fx) (scanned date now end fx [0 ..< length (time fx)])"
    unfolding renderHourlyUntilEndOfDay_def
    by (subst hourly_loop_scanned) simp_all
  assume "chronological (timestamps date fx)"
  then show "renderHourlyUntilEndOfDay date now end fx = hourly_window date now end fx"
    unfolding scan hourly_window_def by (simp only: scanned_chronological)
next
  fix i
  show "item_tag (make_item fx i) = table_tag (array_at (weather_code fx) (int i))"
    by (simp add: make_item_def meteoCodeToTag_table)
next
  fix code
  show "meteoCodeToTag code = table_tag code"
    by (rule meteoCodeToTag_table)
qed

theorem hourly_window_extracted_witness:
  "chronological (timestamps date_of_number example_series)
   \<and> renderHourlyUntilEndOfDay date_of_number 2 3 example_series
       = [\<lparr> item_time = JNum (Fin 2), item_temp = JNum (Fin 11), item_pop = JUndefined,
            item_wind = JNum (Fin 6), item_tag = ''Regen'' \<rparr>,
          \<lparr> item_time = JNum (Fin 3), item_temp = JNum (Fin 12), item_pop = JUndefined,
            item_wind = JUndefined, item_tag = ''Gewitter'' \<rparr>]"
proof -
  have ordered: "chronological (timestamps date_of_number example_series)"
    by (simp add: timestamps_def example_series_def nums_def date_of_number_def)
  have "renderHourlyUntilEndOfDay date_of_number 2 3 example_series
          = hourly_window date_of_number 2 3 example_series"
    using hourly_window_extracted [of date_of_number 2 3 example_series] ordered by blast
  also have "\<dots> = [\<lparr> item_time = JNum (Fin 2), item_temp = JNum (Fin 11), item_pop = JUndefined,
            item_wind = JNum (Fin 6), item_tag = ''Regen'' \<rparr>,
          \<lparr> item_time = JNum (Fin 3), item_temp = JNum (Fin 12), item_pop = JUndefined,
            item_wind = JUndefined, item_tag = ''Gewitter'' \<rparr>]"
    by (simp add: hourly_window_def in_window_def make_item_def array_at_def
        example_series_def nums_def date_of_number_def meteoCodeToTag_def array_includes_def)
  finally show ?thesis using ordered by simp
qed

end
